theory Spec2Isabelle
  imports
    Complex_Main
    "HOL-Library.Multiset"
    "HOL-Library.Char_ord"
    "HOL-Library.List_Lexorder"
    "HOL-Library.Product_Lexorder"
begin

section \<open>The backlog and dispatch assistant of \<^verbatim>\<open>order.py\<close>\<close>

text \<open>
  The script reads an order sheet into a pandas data frame, checks its header, normalises
  the text columns and the quantity column, sums the quantity per
  (SOLDTO, City, Type, Incoterm) for the two statuses \<^verbatim>\<open>backlog\<close> and
  \<^verbatim>\<open>dispatched\<close>, and answers a query for one customer with a text report that it
  appends to the chat history of the session.

  Conventions of the model.
  \<^item> Text is \<open>string\<close>; a character outside ASCII is its UTF-8 bytes.
  \<^item> A cell of a column read with dtype \<^verbatim>\<open>"string"\<close> is a \<open>string option\<close>:
    \<open>None\<close> is the missing value \<^verbatim>\<open><NA>\<close> of an empty cell.
  \<^item> Quantities are exact real numbers: the rounding of binary floating point is not
    modelled.
  \<^item> A data frame is the list of its rows, in row order.
\<close>

subsection \<open>Text helpers: \<^verbatim>\<open>str.strip\<close> and \<^verbatim>\<open>str.lower\<close>\<close>



definition lower_char :: "char \<Rightarrow> char" where
  "lower_char c =
     (if CHR ''A'' \<le> c \<and> c \<le> CHR ''Z'' then char_of (of_char c + (32::nat)) else c)"

definition lower :: "string \<Rightarrow> string" where
  "lower s = map lower_char s"



subsection \<open>The sheet as \<^verbatim>\<open>pd.read_excel\<close> returns it\<close>


text \<open>
  One row of the sheet: the five text columns and the quantity column. The type of the
  quantity is a parameter: a \<open>quantity_cell\<close> before line 112 and a number after it.
\<close>

record 'q order_row =
  SOLDTO :: "string option"
  Type :: "string option"
  Incoterm :: "string option"
  Status_Summary :: "string option"
  ORDERED_QUANTITY :: 'q
  City :: "string option"


subsection \<open>The aggregate table and \<^verbatim>\<open>groupby\<close>\<close>


record agg_row =
  agg_SOLDTO :: string
  agg_City :: string
  agg_Type :: string
  agg_Incoterm :: string
  Backlog :: real
  MTD :: real

text \<open>
  \<^verbatim>\<open>DataFrame.groupby(cols)\<close> with its defaults \<^verbatim>\<open>sort=True\<close> and
  \<^verbatim>\<open>dropna=True\<close>: one group per distinct key, the groups in ascending order of the
  key, each group holding its rows in row order; a row with a missing value in a grouping
  column (key \<open>None\<close>) is in no group.
\<close>

definition groupby :: "('a \<Rightarrow> 'k::linorder option) \<Rightarrow> 'a list \<Rightarrow> ('k \<times> 'a list) list" where
  "groupby key xs =
     map (\<lambda>k. (k, filter (\<lambda>x. key x = Some k) xs)) (sort (remdups (List.map_filter key xs)))"







subsection \<open>Normalisation and \<^verbatim>\<open>load_data\<close>\<close>







subsection \<open>The number format \<^verbatim>\<open>{x:,.2f}\<close>\<close>

text \<open>
  Python rounds the value to two decimals, a tie going to the even neighbour; writes the
  integer part in decimal with a comma before every group of three digits counted from
  the right; and writes a minus sign when the value is negative.
\<close>

definition round_half_even :: "real \<Rightarrow> int" where
  "round_half_even x =
     (let f = \<lfloor>x\<rfloor>; d = x - of_int f
      in if d < 1 / 2 then f else if 1 / 2 < d then f + 1 else if even f then f else f + 1)"

definition digit :: "nat \<Rightarrow> char" where
  "digit n = char_of (of_char CHR ''0'' + n)"

fun dec :: "nat \<Rightarrow> string" where
  "dec n = (if n < 10 then [digit n] else dec (n div 10) @ [digit (n mod 10)])"

declare dec.simps [simp del]

text \<open>The commas, inserted into the reversed digits.\<close>

fun group3 :: "string \<Rightarrow> string" where
  "group3 (a # b # c # d # ds) = a # b # c # CHR '','' # group3 (d # ds)"
| "group3 ds = ds"

definition commas :: "string \<Rightarrow> string" where
  "commas ds = rev (group3 (rev ds))"

definition fmt_2f :: "real \<Rightarrow> string" where
  "fmt_2f x =
     (let n = nat (round_half_even (\<bar>x\<bar> * 100))
      in (if x < 0 then ''-'' else []) @ commas (dec (n div 100)) @ ''.''
           @ [digit (n mod 100 div 10), digit (n mod 10)])"

subsection \<open>The session and the Ask button\<close>

datatype role = user | assistant

record message =
  role :: role
  content :: string

record session_state =
  messages :: "message list"
  selected_customer :: "string option"

text \<open>What one run of the script shows on the page, in order.\<close>

datatype ui_event = Error string | Warning string | Chat role string

text \<open>Line 195: the rows of the aggregate table whose customer matches, ignoring case.\<close>

definition customer_df :: "agg_row list \<Rightarrow> string \<Rightarrow> agg_row list" where
  "customer_df df selected = filter (\<lambda>r. lower (agg_SOLDTO r) = lower selected) df"

record breakdown_row =
  bd_City :: string
  bd_Type :: string
  bd_Incoterm :: string
  bd_Backlog :: real
  bd_MTD :: real

definition breakdown_key :: "agg_row \<Rightarrow> (string \<times> string \<times> string) option" where
  "breakdown_key r = Some (agg_City r, agg_Type r, agg_Incoterm r)"

text \<open>Lines 205 to 207: the matching rows grouped again, both value columns summed.\<close>

definition breakdown :: "agg_row list \<Rightarrow> breakdown_row list" where
  "breakdown cdf =
     map (\<lambda>((c, t, i), g).
            \<lparr>bd_City = c, bd_Type = t, bd_Incoterm = i,
             bd_Backlog = sum_list (map Backlog g), bd_MTD = sum_list (map MTD g)\<rparr>)
       (groupby breakdown_key cdf)"

definition arrow :: string where
  "arrow = [CHR 0xE2, CHR 0x86, CHR 0x92]"

definition nl :: string where
  "nl = [CHR 0x0A]"

text \<open>The body of the loops of lines 219 and 229: one bullet line appended to the text.\<close>

definition bullet :: "(breakdown_row \<Rightarrow> real) \<Rightarrow> string \<Rightarrow> breakdown_row \<Rightarrow> string" where
  "bullet col text row =
     text @ ''- '' @ bd_City row @ '' | '' @ bd_Type row @ '' | '' @ bd_Incoterm row
          @ '' '' @ arrow @ '' '' @ fmt_2f (col row) @ nl"

text \<open>Lines 209 and 210.\<close>

definition total_backlog :: "breakdown_row list \<Rightarrow> real" where
  "total_backlog bd = sum_list (map bd_Backlog bd)"

definition total_mtd :: "breakdown_row list \<Rightarrow> real" where
  "total_mtd bd = sum_list (map bd_MTD bd)"

text \<open>Lines 215 to 220 and 225 to 230.\<close>

definition backlog_text :: "string \<Rightarrow> breakdown_row list \<Rightarrow> string" where
  "backlog_text selected bd =
     (let text0 = ''## '' @ selected @ '' - Backlog Summary'' @ nl;
          text1 = text0 @ ''**Total Backlog:** '' @ fmt_2f (total_backlog bd) @ nl @ nl;
          text2 = text1 @ ''### Backlog by City, Type and Incoterm'' @ nl
      in foldl (bullet bd_Backlog) text2 bd)"

definition mtd_text :: "string \<Rightarrow> breakdown_row list \<Rightarrow> string" where
  "mtd_text selected bd =
     (let text0 = ''## '' @ selected @ '' - MTD Summary'' @ nl;
          text1 = text0 @ ''**Total MTD:** '' @ fmt_2f (total_mtd bd) @ nl @ nl;
          text2 = text1 @ ''### MTD by City, Type and Incoterm'' @ nl
      in foldl (bullet bd_MTD) text2 bd)"

text \<open>\<^verbatim>\<open>sep.join(parts)\<close>.\<close>

fun join :: "string \<Rightarrow> string list \<Rightarrow> string" where
  "join sep [] = []"
| "join sep [p] = p"
| "join sep (p # q # ps) = p @ sep @ join sep (q # ps)"

text \<open>Lines 212 to 234.\<close>

definition response_text :: "string \<Rightarrow> string \<Rightarrow> breakdown_row list \<Rightarrow> string" where
  "response_text question_type selected bd =
     (let parts = [];
          parts = (if question_type \<in> set [''Backlog'', ''Backlog & MTD'']
                   then parts @ [backlog_text selected bd] else parts);
          parts = (if question_type \<in> set [''MTD'', ''Backlog & MTD'']
                   then parts @ [mtd_text selected bd] else parts)
      in join (nl @ nl) parts)"

definition not_present :: string where
  "not_present = [CHR 0xE2, CHR 0x9D, CHR 0x8C] @ '' ERROR: Customer not present in dataset.''"

definition append_message :: "role \<Rightarrow> string \<Rightarrow> session_state \<Rightarrow> session_state" where
  "append_message r c st = st\<lparr>messages := messages st @ [\<lparr>role = r, content = c\<rparr>]\<rparr>"

text \<open>
  Lines 181 to 239, the run of the script after a click on Ask: the new session state and
  what the run shows. \<^verbatim>\<open>not st.session_state.selected_customer\<close> holds for
  \<^verbatim>\<open>None\<close> and for the empty string.
\<close>

definition ask :: "agg_row list \<Rightarrow> string \<Rightarrow> session_state \<Rightarrow> session_state \<times> ui_event list" where
  "ask df question_type st =
     (case selected_customer st of
        None \<Rightarrow> (st, [Warning ''Please select a customer.''])
      | Some selected \<Rightarrow>
          if selected = [] then (st, [Warning ''Please select a customer.''])
          else
            let prompt = question_type @ '' for '' @ selected;
                st1 = append_message user prompt st;
                cdf = customer_df df selected
            in if cdf = []
               then (append_message assistant not_present st1,
                     [Chat user prompt, Chat assistant not_present])
               else
                 let response = response_text question_type selected (breakdown cdf)
                 in (append_message assistant response st1,
                     [Chat user prompt, Chat assistant response]))"



subsection \<open>The quantities the specification compares with\<close>



subsection \<open>The shape the specification asks of a formatted number\<close>

text \<open>
  A recogniser for "thousands separators and two decimal places", written from those
  words and not from \<open>fmt_2f\<close>: an optional minus sign; one to three digits; any number
  of groups of a comma and three digits; a point; two digits. \<open>grouped_rev\<close> reads the
  integer part from its right end.
\<close>

definition is_digit :: "char \<Rightarrow> bool" where
  "is_digit c \<longleftrightarrow> CHR ''0'' \<le> c \<and> c \<le> CHR ''9''"

fun grouped_rev :: "string \<Rightarrow> bool" where
  "grouped_rev (a # b # c # s # ds) =
     (is_digit a \<and> is_digit b \<and> is_digit c \<and> s = CHR '','' \<and> grouped_rev ds)"
| "grouped_rev [a, b, c] = (is_digit a \<and> is_digit b \<and> is_digit c)"
| "grouped_rev [a, b] = (is_digit a \<and> is_digit b)"
| "grouped_rev [a] = is_digit a"
| "grouped_rev [] = False"

definition spec_grouped_2dp :: "string \<Rightarrow> bool" where
  "spec_grouped_2dp s =
     (case rev (if s \<noteq> [] \<and> hd s = CHR ''-'' then tl s else s) of
        d2 # d1 # p # ip \<Rightarrow> is_digit d2 \<and> is_digit d1 \<and> p = CHR ''.'' \<and> grouped_rev ip
      | _ \<Rightarrow> False)"

section \<open>Schema validation\<close>



section \<open>The Ask button\<close>

text \<open>
  Claim C8. With no customer selected (the selection is \<^verbatim>\<open>None\<close>, or the empty string,
  which the guard of line 183 treats alike), a click on Ask shows the warning and nothing
  else, and returns the session state as it was: no message is appended and the selection
  is not touched. The run ends in a value, not in an exception.
\<close>

theorem ask_without_selection:
  assumes "selected_customer st = None \<or> selected_customer st = Some []"
  shows "ask df question_type st = (st, [Warning ''Please select a customer.''])"
  using assms by (auto simp: ask_def)

theorem ask_without_selection_witness:
  "ask [] ''Backlog''
     \<lparr>messages = [\<lparr>role = user, content = ''MTD for ABC123''\<rparr>], selected_customer = None\<rparr>
   = (\<lparr>messages = [\<lparr>role = user, content = ''MTD for ABC123''\<rparr>], selected_customer = None\<rparr>,
      [Warning ''Please select a customer.''])"
  using ask_without_selection [of "\<lparr>messages = [\<lparr>role = user, content = ''MTD for ABC123''\<rparr>],
      selected_customer = None\<rparr>" "[]" "''Backlog''"]
  by simp

section \<open>Aggregation\<close>

subsection \<open>Sums over groups\<close>

lemma set_map_filter: "set (List.map_filter key xs) = {k. \<exists>x \<in> set xs. key x = Some k}"
  by (induction xs) (auto simp: List.map_filter_simps split: option.splits)




lemma groupby_keys: "map fst (groupby key xs) = sort (remdups (List.map_filter key xs))"
  by (simp add: groupby_def comp_def)










subsection \<open>Conservation of quantity\<close>




subsection \<open>Sign of the aggregates\<close>








subsection \<open>Independence of the row order\<close>

lemma sort_remdups_set_cong:
  fixes xs ys :: "'k::linorder list"
  assumes "set xs = set ys"
  shows "sort (remdups xs) = sort (remdups ys)"
  using assms by (simp flip: sorted_list_of_set_sort_remdups)

lemma sum_list_filter_mset_cong:
  fixes f :: "'a \<Rightarrow> real"
  assumes "mset xs = mset ys"
  shows "sum_list (map f (filter P xs)) = sum_list (map f (filter P ys))"
proof -
  have "sum_list (map f (filter P zs)) = sum_mset (image_mset f (filter_mset P (mset zs)))" for zs
    by (simp flip: sum_mset_sum_list)
  with assms show ?thesis by simp
qed







section \<open>The coercion of the quantity\<close>







section \<open>Resolving a query\<close>





section \<open>The report\<close>

subsection \<open>The number format\<close>

lemma is_digit_digit: "n < 10 \<Longrightarrow> is_digit (digit n)"
  by (simp add: is_digit_def digit_def less_eq_char_def)

lemma digit_not_minus: "is_digit c \<Longrightarrow> c \<noteq> CHR ''-''"
  by (auto simp: is_digit_def less_eq_char_def)

lemma dec_digits: "dec n \<noteq> [] \<and> (\<forall>c \<in> set (dec n). is_digit c)"
proof (induction n rule: dec.induct)
  case (1 n)
  show ?case
  proof (cases "n < 10")
    case True
    then show ?thesis by (simp add: dec.simps [of n] is_digit_digit)
  next
    case False
    with 1 show ?thesis by (simp add: dec.simps [of n] is_digit_digit)
  qed
qed

lemma grouped_rev_group3:
  "ds \<noteq> [] \<Longrightarrow> \<forall>c \<in> set ds. is_digit c \<Longrightarrow> grouped_rev (group3 ds)"
  by (induction ds rule: group3.induct) simp_all

lemma group3_Nil: "group3 ds = [] \<longleftrightarrow> ds = []"
  by (induction ds rule: group3.induct) auto

lemma last_group3: "ds \<noteq> [] \<Longrightarrow> last (group3 ds) = last ds"
  by (induction ds rule: group3.induct) (auto simp: group3_Nil)

lemma fmt_2f_shape: "spec_grouped_2dp (fmt_2f x)"
proof -
  define n where "n = nat (round_half_even (\<bar>x\<bar> * 100))"
  define ip where "ip = commas (dec (n div 100))"
  have d1: "is_digit (digit (n mod 100 div 10))" and d2: "is_digit (digit (n mod 10))"
    by (simp_all add: is_digit_digit)
  have rev_ip: "grouped_rev (rev ip)"
    unfolding ip_def commas_def using dec_digits [of "n div 100"]
    by (simp add: grouped_rev_group3)
  then have ne: "ip \<noteq> []"
    by auto
  have "hd ip = last (rev (dec (n div 100)))"
    unfolding ip_def commas_def using dec_digits [of "n div 100"]
    by (simp add: hd_rev last_group3 group3_Nil)
  also have "\<dots> \<in> set (dec (n div 100))"
    using dec_digits [of "n div 100"] by (simp add: last_rev)
  finally have "is_digit (hd ip)"
    using dec_digits [of "n div 100"] by blast
  then have hd: "hd ip \<noteq> CHR ''-''"
    by (rule digit_not_minus)
  have f: "fmt_2f x = (if x < 0 then ''-'' else []) @ ip @ ''.''
      @ [digit (n mod 100 div 10), digit (n mod 10)]"
    by (simp add: fmt_2f_def Let_def n_def ip_def)
  show ?thesis
    unfolding f spec_grouped_2dp_def using ne hd d1 d2 rev_ip
    by (cases ip) auto
qed

text \<open>Rules that evaluate \<open>dec\<close> and \<open>digit\<close> on numerals.\<close>

lemma digit_values:
  "digit 0 = CHR ''0''" "digit 1 = CHR ''1''" "digit 2 = CHR ''2''" "digit 3 = CHR ''3''"
  "digit 4 = CHR ''4''" "digit 5 = CHR ''5''" "digit 6 = CHR ''6''" "digit 7 = CHR ''7''"
  "digit 8 = CHR ''8''" "digit 9 = CHR ''9''" "digit (Suc 0) = CHR ''1''"
  by code_simp+

lemma dec_small: "n < 10 \<Longrightarrow> dec n = [digit n]"
  by (simp add: dec.simps [of n])

lemma dec_step: "10 \<le> n \<Longrightarrow> dec n = dec (n div 10) @ [digit (n mod 10)]"
  by (simp add: dec.simps [of n])

subsection \<open>The text of the report\<close>

lemma bullet_append: "bullet col acc row = acc @ bullet col [] row"
  by (simp add: bullet_def)

lemma foldl_bullet: "foldl (bullet col) acc bd = acc @ concat (map (bullet col []) bd)"
proof (induction bd arbitrary: acc)
  case Nil
  show ?case by simp
next
  case (Cons row bd)
  have "foldl (bullet col) acc (row # bd) = foldl (bullet col) (acc @ bullet col [] row) bd"
    by (simp add: bullet_append [of col acc row])
  also have "\<dots> = (acc @ bullet col [] row) @ concat (map (bullet col []) bd)"
    by (rule Cons.IH)
  finally show ?case by simp
qed

lemma backlog_text_lines:
  "backlog_text c bd
     = ''## '' @ c @ '' - Backlog Summary'' @ nl
       @ ''**Total Backlog:** '' @ fmt_2f (total_backlog bd) @ nl @ nl
       @ ''### Backlog by City, Type and Incoterm'' @ nl
       @ concat (map (bullet bd_Backlog []) bd)"
  by (simp add: backlog_text_def Let_def foldl_bullet)

lemma mtd_text_lines:
  "mtd_text c bd
     = ''## '' @ c @ '' - MTD Summary'' @ nl
       @ ''**Total MTD:** '' @ fmt_2f (total_mtd bd) @ nl @ nl
       @ ''### MTD by City, Type and Incoterm'' @ nl
       @ concat (map (bullet bd_MTD []) bd)"
  by (simp add: mtd_text_def Let_def foldl_bullet)

lemma ask_resolved:
  assumes "selected_customer st = Some c" "c \<noteq> []" "customer_df df c \<noteq> []"
  shows "ask df q st
     = (st\<lparr>messages := messages st
            @ [\<lparr>role = user, content = q @ '' for '' @ c\<rparr>,
               \<lparr>role = assistant, content = response_text q c (breakdown (customer_df df c))\<rparr>]\<rparr>,
        [Chat user (q @ '' for '' @ c),
         Chat assistant (response_text q c (breakdown (customer_df df c)))])"
  using assms by (simp add: ask_def Let_def append_message_def)

text \<open>
  Claim C9. The section of a metric is a heading that names the customer and the metric, a
  line with the grand total (the sum of the metric over the breakdown) in the format
  \<^verbatim>\<open>,.2f\<close>, a sub-heading, and one line per breakdown row, in the order of the
  breakdown, of the form \<^verbatim>\<open>- city | type | incoterm\<close>, an arrow, and the value in
  the same format. That format gives an optional sign, digits in groups of three separated
  by commas, a point and two digits. \<^verbatim>\<open>Backlog\<close> asks for the Backlog section,
  \<^verbatim>\<open>MTD\<close> for the MTD section, and \<^verbatim>\<open>Backlog & MTD\<close> for both, Backlog first,
  joined by the separator of two newlines. (Every section ends with a newline, so the
  text has two empty lines between the last Backlog line and the MTD heading.) The
  assistant message of a resolved query is this text for the breakdown of the selected
  rows.
\<close>

theorem formatter_structure:
  "backlog_text c bd
     = ''## '' @ c @ '' - Backlog Summary'' @ nl
       @ ''**Total Backlog:** '' @ fmt_2f (sum_list (map bd_Backlog bd)) @ nl @ nl
       @ ''### Backlog by City, Type and Incoterm'' @ nl
       @ concat (map (\<lambda>row. ''- '' @ bd_City row @ '' | '' @ bd_Type row @ '' | '' @ bd_Incoterm row
                              @ '' '' @ arrow @ '' '' @ fmt_2f (bd_Backlog row) @ nl) bd)
   \<and> mtd_text c bd
     = ''## '' @ c @ '' - MTD Summary'' @ nl
       @ ''**Total MTD:** '' @ fmt_2f (sum_list (map bd_MTD bd)) @ nl @ nl
       @ ''### MTD by City, Type and Incoterm'' @ nl
       @ concat (map (\<lambda>row. ''- '' @ bd_City row @ '' | '' @ bd_Type row @ '' | '' @ bd_Incoterm row
                              @ '' '' @ arrow @ '' '' @ fmt_2f (bd_MTD row) @ nl) bd)
   \<and> response_text ''Backlog'' c bd = backlog_text c bd
   \<and> response_text ''MTD'' c bd = mtd_text c bd
   \<and> response_text ''Backlog & MTD'' c bd = backlog_text c bd @ nl @ nl @ mtd_text c bd
   \<and> spec_grouped_2dp (fmt_2f x)
   \<and> (selected_customer st = Some c \<and> c \<noteq> [] \<and> customer_df df c \<noteq> [] \<longrightarrow>
        snd (ask df q st)
          = [Chat user (q @ '' for '' @ c),
             Chat assistant (response_text q c (breakdown (customer_df df c)))])"
proof -
  have b: "bullet col [] = (\<lambda>row. ''- '' @ bd_City row @ '' | '' @ bd_Type row @ '' | ''
      @ bd_Incoterm row @ '' '' @ arrow @ '' '' @ fmt_2f (col row) @ nl)" for col
    by (rule ext) (simp add: bullet_def)
  have r: "response_text ''Backlog'' c bd = backlog_text c bd"
    "response_text ''MTD'' c bd = mtd_text c bd"
    "response_text ''Backlog & MTD'' c bd = backlog_text c bd @ nl @ nl @ mtd_text c bd"
    by (simp_all add: response_text_def)
  have a: "snd (ask df q st)
          = [Chat user (q @ '' for '' @ c),
             Chat assistant (response_text q c (breakdown (customer_df df c)))]"
    if "selected_customer st = Some c" "c \<noteq> []" "customer_df df c \<noteq> []"
    using ask_resolved [OF that] by simp
  show ?thesis
    unfolding backlog_text_lines mtd_text_lines b total_backlog_def total_mtd_def
    using r a fmt_2f_shape
    unfolding backlog_text_lines mtd_text_lines b total_backlog_def total_mtd_def
    by blast
qed

text \<open>A customer with two aggregate rows, written in two cases.\<close>

theorem formatter_structure_witness:
  "snd (ask [\<lparr>agg_SOLDTO = ''ABC123'', agg_City = ''Chicago'', agg_Type = ''Domestic'',
               agg_Incoterm = ''FOB'', Backlog = 1000, MTD = 40\<rparr>,
             \<lparr>agg_SOLDTO = ''abc123'', agg_City = ''Boston'', agg_Type = ''Export'',
               agg_Incoterm = ''CIF'', Backlog = 234, MTD = 0\<rparr>] ''Backlog & MTD''
          \<lparr>messages = [], selected_customer = Some ''ABC123''\<rparr>)
     = [Chat user ''Backlog & MTD for ABC123'',
        Chat assistant
          (''## ABC123 - Backlog Summary'' @ nl
           @ ''**Total Backlog:** 1,234.00'' @ nl @ nl
           @ ''### Backlog by City, Type and Incoterm'' @ nl
           @ ''- Boston | Export | CIF '' @ arrow @ '' 234.00'' @ nl
           @ ''- Chicago | Domestic | FOB '' @ arrow @ '' 1,000.00'' @ nl
           @ nl @ nl
           @ ''## ABC123 - MTD Summary'' @ nl
           @ ''**Total MTD:** 40.00'' @ nl @ nl
           @ ''### MTD by City, Type and Incoterm'' @ nl
           @ ''- Boston | Export | CIF '' @ arrow @ '' 0.00'' @ nl
           @ ''- Chicago | Domestic | FOB '' @ arrow @ '' 40.00'' @ nl)]"
proof -
  let ?df = "[\<lparr>agg_SOLDTO = ''ABC123'', agg_City = ''Chicago'', agg_Type = ''Domestic'',
               agg_Incoterm = ''FOB'', Backlog = 1000, MTD = 40\<rparr>,
             \<lparr>agg_SOLDTO = ''abc123'', agg_City = ''Boston'', agg_Type = ''Export'',
               agg_Incoterm = ''CIF'', Backlog = 234, MTD = 0\<rparr>]"
  let ?bd = "[\<lparr>bd_City = ''Boston'', bd_Type = ''Export'', bd_Incoterm = ''CIF'',
               bd_Backlog = 234, bd_MTD = 0\<rparr>,
             \<lparr>bd_City = ''Chicago'', bd_Type = ''Domestic'', bd_Incoterm = ''FOB'',
               bd_Backlog = 1000, bd_MTD = 40\<rparr>]"
  let ?st = "\<lparr>messages = [], selected_customer = Some ''ABC123''\<rparr>"
  have cdf: "customer_df ?df ''ABC123'' = ?df"
    by code_simp
  have bd: "breakdown ?df = ?bd"
    by code_simp
  have f: "fmt_2f 1234 = ''1,234.00''" "fmt_2f 234 = ''234.00''" "fmt_2f 1000 = ''1,000.00''"
    "fmt_2f 40 = ''40.00''" "fmt_2f 0 = ''0.00''"
    by (simp_all add: fmt_2f_def round_half_even_def Let_def commas_def dec_small dec_step
        digit_values)
  note s = formatter_structure [of "''ABC123''" ?bd 0 ?st ?df "''Backlog & MTD''"]
  from s have "snd (ask ?df ''Backlog & MTD'' ?st)
      = [Chat user (''Backlog & MTD'' @ '' for '' @ ''ABC123''),
         Chat assistant (response_text ''Backlog & MTD'' ''ABC123'' ?bd)]"
    by (simp add: cdf bd)
  moreover from s have "response_text ''Backlog & MTD'' ''ABC123'' ?bd
      = backlog_text ''ABC123'' ?bd @ nl @ nl @ mtd_text ''ABC123'' ?bd"
    by blast
  moreover from s have "backlog_text ''ABC123'' ?bd
      = ''## ABC123 - Backlog Summary'' @ nl
           @ ''**Total Backlog:** 1,234.00'' @ nl @ nl
           @ ''### Backlog by City, Type and Incoterm'' @ nl
           @ ''- Boston | Export | CIF '' @ arrow @ '' 234.00'' @ nl
           @ ''- Chicago | Domestic | FOB '' @ arrow @ '' 1,000.00'' @ nl"
    by (simp add: f)
  moreover from s have "mtd_text ''ABC123'' ?bd
      = ''## ABC123 - MTD Summary'' @ nl
           @ ''**Total MTD:** 40.00'' @ nl @ nl
           @ ''### MTD by City, Type and Incoterm'' @ nl
           @ ''- Boston | Export | CIF '' @ arrow @ '' 0.00'' @ nl
           @ ''- Chicago | Domestic | FOB '' @ arrow @ '' 40.00'' @ nl"
    by (simp add: f)
  ultimately show ?thesis
    by simp
qed

subsection \<open>The order of the breakdown\<close>

lemma breakdown_keys:
  "map (\<lambda>b. (bd_City b, bd_Type b, bd_Incoterm b)) (breakdown cdf)
     = sort (remdups (List.map_filter breakdown_key cdf))"
  by (simp add: breakdown_def groupby_def comp_def case_prod_beta)

lemma breakdown_mset_cong:
  assumes "mset cdf' = mset cdf"
  shows "breakdown cdf' = breakdown cdf"
proof -
  from assms have "set cdf' = set cdf"
    by (rule mset_eq_setD)
  then have keys: "sort (remdups (List.map_filter breakdown_key cdf'))
      = sort (remdups (List.map_filter breakdown_key cdf))"
    by (intro sort_remdups_set_cong) (simp only: set_map_filter)
  have sums: "sum_list (map f (filter (\<lambda>r. breakdown_key r = Some k) cdf'))
      = sum_list (map f (filter (\<lambda>r. breakdown_key r = Some k) cdf))" for k and f :: "agg_row \<Rightarrow> real"
    by (rule sum_list_filter_mset_cong [OF assms])
  show ?thesis
    by (simp add: breakdown_def groupby_def comp_def case_prod_beta keys sums)
qed

lemma customer_df_mset_cong:
  assumes "mset df' = mset df"
  shows "mset (customer_df df' c) = mset (customer_df df c)"
  using assms by (simp add: customer_df_def)

lemma ask_mset_cong:
  assumes "mset df' = mset df"
  shows "ask df' q st = ask df q st"
proof -
  have m: "mset (customer_df df' c) = mset (customer_df df c)" for c
    by (rule customer_df_mset_cong [OF assms])
  have e: "customer_df df' c = [] \<longleftrightarrow> customer_df df c = []" for c
    using m [of c] by (metis mset_zero_iff)
  have b: "breakdown (customer_df df' c) = breakdown (customer_df df c)" for c
    by (rule breakdown_mset_cong [OF m])
  show ?thesis
    by (cases "selected_customer st") (simp_all add: ask_def Let_def e b)
qed

text \<open>
  Claim C10. The rows of the breakdown are in strictly ascending lexicographic order of
  (City, Type, Incoterm), because \<^verbatim>\<open>groupby\<close> sorts its keys; both sections of the
  report write one line per breakdown row in that order; and the breakdown, and with it
  the whole run of a query, is the same for any order of the rows it is computed from.
\<close>

theorem breakdown_sorted:
  "sorted_wrt (<) (map (\<lambda>b. (bd_City b, bd_Type b, bd_Incoterm b)) (breakdown cdf))
   \<and> backlog_text c (breakdown cdf)
     = ''## '' @ c @ '' - Backlog Summary'' @ nl
       @ ''**Total Backlog:** '' @ fmt_2f (total_backlog (breakdown cdf)) @ nl @ nl
       @ ''### Backlog by City, Type and Incoterm'' @ nl
       @ concat (map (bullet bd_Backlog []) (breakdown cdf))
   \<and> mtd_text c (breakdown cdf)
     = ''## '' @ c @ '' - MTD Summary'' @ nl
       @ ''**Total MTD:** '' @ fmt_2f (total_mtd (breakdown cdf)) @ nl @ nl
       @ ''### MTD by City, Type and Incoterm'' @ nl
       @ concat (map (bullet bd_MTD []) (breakdown cdf))
   \<and> (mset cdf' = mset cdf \<longrightarrow> breakdown cdf' = breakdown cdf)
   \<and> (mset df' = mset df \<longrightarrow> ask df' q st = ask df q st)"
proof -
  have "sorted_wrt (<) (map (\<lambda>b. (bd_City b, bd_Type b, bd_Incoterm b)) (breakdown cdf))"
    by (simp only: breakdown_keys strict_sorted_iff sorted_sort distinct_sort distinct_remdups)
  then show ?thesis
    using breakdown_mset_cong ask_mset_cong backlog_text_lines mtd_text_lines by blast
qed

text \<open>Four matching rows with three keys, in two orders.\<close>

theorem breakdown_sorted_witness:
  "map (\<lambda>b. (bd_City b, bd_Type b, bd_Incoterm b)) (breakdown
      [\<lparr>agg_SOLDTO = ''abc123'', agg_City = ''Lima'', agg_Type = ''Export'',
          agg_Incoterm = ''CIF'', Backlog = 7, MTD = 1\<rparr>,
       \<lparr>agg_SOLDTO = ''ABC123'', agg_City = ''Chicago'', agg_Type = ''Domestic'',
          agg_Incoterm = ''FOB'', Backlog = 100, MTD = 40\<rparr>,
       \<lparr>agg_SOLDTO = ''ABC123'', agg_City = ''Chicago'', agg_Type = ''Domestic'',
          agg_Incoterm = ''CIF'', Backlog = 5, MTD = 0\<rparr>,
       \<lparr>agg_SOLDTO = ''Abc123'', agg_City = ''Lima'', agg_Type = ''Export'',
          agg_Incoterm = ''CIF'', Backlog = 3, MTD = 0\<rparr>])
     = [(''Chicago'', ''Domestic'', ''CIF''), (''Chicago'', ''Domestic'', ''FOB''),
        (''Lima'', ''Export'', ''CIF'')]
   \<and> sorted_wrt (<) [(''Chicago'', ''Domestic'', ''CIF''), (''Chicago'', ''Domestic'', ''FOB''),
        (''Lima'', ''Export'', ''CIF'')]
   \<and> breakdown
      [\<lparr>agg_SOLDTO = ''ABC123'', agg_City = ''Chicago'', agg_Type = ''Domestic'',
          agg_Incoterm = ''CIF'', Backlog = 5, MTD = 0\<rparr>,
       \<lparr>agg_SOLDTO = ''Abc123'', agg_City = ''Lima'', agg_Type = ''Export'',
          agg_Incoterm = ''CIF'', Backlog = 3, MTD = 0\<rparr>,
       \<lparr>agg_SOLDTO = ''abc123'', agg_City = ''Lima'', agg_Type = ''Export'',
          agg_Incoterm = ''CIF'', Backlog = 7, MTD = 1\<rparr>,
       \<lparr>agg_SOLDTO = ''ABC123'', agg_City = ''Chicago'', agg_Type = ''Domestic'',
          agg_Incoterm = ''FOB'', Backlog = 100, MTD = 40\<rparr>]
     = breakdown
      [\<lparr>agg_SOLDTO = ''abc123'', agg_City = ''Lima'', agg_Type = ''Export'',
          agg_Incoterm = ''CIF'', Backlog = 7, MTD = 1\<rparr>,
       \<lparr>agg_SOLDTO = ''ABC123'', agg_City = ''Chicago'', agg_Type = ''Domestic'',
          agg_Incoterm = ''FOB'', Backlog = 100, MTD = 40\<rparr>,
       \<lparr>agg_SOLDTO = ''ABC123'', agg_City = ''Chicago'', agg_Type = ''Domestic'',
          agg_Incoterm = ''CIF'', Backlog = 5, MTD = 0\<rparr>,
       \<lparr>agg_SOLDTO = ''Abc123'', agg_City = ''Lima'', agg_Type = ''Export'',
          agg_Incoterm = ''CIF'', Backlog = 3, MTD = 0\<rparr>]"
proof -
  let ?w = "\<lparr>agg_SOLDTO = ''abc123'', agg_City = ''Lima'', agg_Type = ''Export'',
          agg_Incoterm = ''CIF'', Backlog = 7, MTD = 1\<rparr>"
  let ?x = "\<lparr>agg_SOLDTO = ''ABC123'', agg_City = ''Chicago'', agg_Type = ''Domestic'',
          agg_Incoterm = ''FOB'', Backlog = 100, MTD = 40\<rparr>"
  let ?y = "\<lparr>agg_SOLDTO = ''ABC123'', agg_City = ''Chicago'', agg_Type = ''Domestic'',
          agg_Incoterm = ''CIF'', Backlog = 5, MTD = 0\<rparr>"
  let ?z = "\<lparr>agg_SOLDTO = ''Abc123'', agg_City = ''Lima'', agg_Type = ''Export'',
          agg_Incoterm = ''CIF'', Backlog = 3, MTD = 0\<rparr>"
  have k: "map (\<lambda>b. (bd_City b, bd_Type b, bd_Incoterm b)) (breakdown [?w, ?x, ?y, ?z])
      = [(''Chicago'', ''Domestic'', ''CIF''), (''Chicago'', ''Domestic'', ''FOB''),
         (''Lima'', ''Export'', ''CIF'')]"
    by code_simp
  have p: "mset [?y, ?z, ?w, ?x] = mset [?w, ?x, ?y, ?z]"
    by (simp add: add_mset_commute)
  note s = breakdown_sorted [of "[?w, ?x, ?y, ?z]" "[]" "[?y, ?z, ?w, ?x]" "[]" "[]" "[]"
      "\<lparr>messages = [], selected_customer = None\<rparr>"]
  from s have "sorted_wrt (<) (map (\<lambda>b. (bd_City b, bd_Type b, bd_Incoterm b))
      (breakdown [?w, ?x, ?y, ?z]))"
    by blast
  then have "sorted_wrt (<) [(''Chicago'', ''Domestic'', ''CIF''),
      (''Chicago'', ''Domestic'', ''FOB''), (''Lima'', ''Export'', ''CIF'')]"
    by (simp only: k)
  moreover from s p have "breakdown [?y, ?z, ?w, ?x] = breakdown [?w, ?x, ?y, ?z]"
    by blast
  ultimately show ?thesis
    using k by blast
qed

end
